theory Spec2Isabelle
  imports Main "HOL-Library.Word"
begin

section \<open>The Key value type of pycoin (src/pycoin/key/Key.py)\<close>

text \<open>
  A shallow embedding of the class \<^verbatim>\<open>Key\<close>. Python integers are \<open>int\<close>, byte strings
  are lists of 8-bit words, \<^verbatim>\<open>None\<close> is \<open>None\<close> of an option type, and every
  \<^verbatim>\<open>raise\<close> (also one that would come out of a collaborator) is the \<open>Inl\<close> branch of a
  sum. The two class attributes \<^verbatim>\<open>_generator\<close> and \<^verbatim>\<open>_network\<close>, together with the
  functions imported at the top of the module, are handed to every operation in a
  record of capabilities.
\<close>

subsection \<open>Data\<close>

type_synonym bytes = "8 word list"

text \<open>
  A public pair is a Python 2-tuple whose entries are integers or \<^verbatim>\<open>None\<close>; the point at
  infinity is \<^verbatim>\<open>(None, None)\<close>.
\<close>

type_synonym public_pair_t = "int option \<times> int option"

datatype error =
    ValueError                    \<comment> \<open>line 46: wrong number of construction arguments\<close>
  | InvalidPublicPairError        \<comment> \<open>line 10 (a subclass of \<^verbatim>\<open>ValueError\<close>), raised at line 69\<close>
  | InvalidSecretExponentError    \<comment> \<open>line 14 (a subclass of \<^verbatim>\<open>ValueError\<close>), raised at line 63\<close>
  | RuntimeError                  \<comment> \<open>line 188: signing with a key that is not private\<close>
  | TypeError                     \<comment> \<open>Python's own error when \<^verbatim>\<open>None\<close> is used as a value\<close>
  | AttributeError                \<comment> \<open>Python's own error when a method of \<^verbatim>\<open>None\<close> is called\<close>
  | OverflowError                 \<comment> \<open>an integer that does not fit 32 bytes\<close>
  | EncodingError                 \<comment> \<open>a malformed SEC byte string\<close>
  | DecodeError                   \<comment> \<open>the signature codec cannot decode its input\<close>

text \<open>The generator capability: what \<^verbatim>\<open>Key\<close> calls on \<^verbatim>\<open>self._generator\<close>.\<close>

record generator =
  g_order :: int                                          \<comment> \<open>\<^verbatim>\<open>order()\<close>\<close>
  g_multiply :: "int \<Rightarrow> public_pair_t"                     \<comment> \<open>\<^verbatim>\<open>secret_exponent * generator\<close>\<close>
  g_contains_point :: "int \<Rightarrow> int \<Rightarrow> bool"                \<comment> \<open>\<^verbatim>\<open>contains_point(x, y)\<close>\<close>
  g_sign :: "int \<Rightarrow> int \<Rightarrow> int \<times> int"                    \<comment> \<open>\<^verbatim>\<open>sign(secret_exponent, val)\<close>\<close>
  g_verify :: "public_pair_t option \<Rightarrow> int \<Rightarrow> int \<times> int \<Rightarrow> bool"  \<comment> \<open>\<^verbatim>\<open>verify(pubkey, val, sig)\<close>\<close>
  g_y_for_x :: "int \<Rightarrow> bool \<Rightarrow> int option"
    \<comment> \<open>the root of the curve equation at \<open>x\<close> with the wanted parity (odd iff the flag),
        used by the SEC decoder only\<close>

text \<open>The network capability: what \<^verbatim>\<open>Key\<close> calls on \<^verbatim>\<open>self._network\<close>.\<close>

record network =
  n_bool :: bool                                          \<comment> \<open>truth value of the object (line 209)\<close>
  n_wif_for_blob :: "bytes \<Rightarrow> string"
  n_sec_text_for_blob :: "bytes option \<Rightarrow> string"
  n_address_for_p2pkh :: "bytes \<Rightarrow> string"

text \<open>
  Everything a \<^verbatim>\<open>Key\<close> class is bound to. The class attribute \<^verbatim>\<open>_generator\<close> is \<^verbatim>\<open>None\<close> on
  the base class (line 21) and a generator on a class made by \<^verbatim>\<open>make_subclass\<close>
  (lines 23-30); \<open>c_default_generator\<close> is the \<^verbatim>\<open>secp256k1_generator\<close> that line 54
  imports. \<open>c_network\<close> is \<^verbatim>\<open>self._network\<close> as every method reads it on an instance,
  that is after lines 56-58 have replaced a missing one by the current network; the
  class attribute \<^verbatim>\<open>_network\<close> itself is never read through the class. The other
  fields are the imported short hash, hex and signature codec functions (lines 2, 3
  and 7).
\<close>

record caps =
  c_class_generator :: "generator option"                 \<comment> \<open>\<^verbatim>\<open>class_._generator\<close>\<close>
  c_default_generator :: generator                        \<comment> \<open>\<^verbatim>\<open>secp256k1_generator\<close> (line 54)\<close>
  c_network :: network
  c_hash160 :: "bytes \<Rightarrow> bytes"                           \<comment> \<open>\<^verbatim>\<open>pycoin.encoding.hash.hash160\<close>\<close>
  c_b2h :: "bytes \<Rightarrow> string"                              \<comment> \<open>\<^verbatim>\<open>pycoin.encoding.hexbytes.b2h\<close>\<close>
  c_sigencode_der :: "int \<Rightarrow> int \<Rightarrow> bytes"                \<comment> \<open>\<^verbatim>\<open>sigencode_der(r, s)\<close>\<close>
  c_sigdecode_der :: "bytes \<Rightarrow> error + int \<times> int"         \<comment> \<open>\<^verbatim>\<open>sigdecode_der(sig)\<close>, which may raise\<close>

text \<open>
  \<^verbatim>\<open>self._generator\<close> as an instance reads it: lines 53-55 assign the default to the
  instance when the class has none, and the class attribute is found otherwise.
\<close>

definition c_generator :: "caps \<Rightarrow> generator" where
  "c_generator c =
     (case c_class_generator c of
        None \<Rightarrow> c_default_generator c
      | Some g \<Rightarrow> g)"

text \<open>The instance attributes assigned in \<^verbatim>\<open>__init__\<close> (lines 47-51).\<close>

record key =
  f_secret_exponent :: "int option"
  f_public_pair :: "public_pair_t option"
  f_is_compressed :: bool
  f_hash160_uncompressed :: "bytes option"
  f_hash160_compressed :: "bytes option"

subsection \<open>Construction (lines 32-69)\<close>

text \<open>
  Lines 67-69. The test \<^verbatim>\<open>None in self._public_pair\<close> comes first and
  \<^verbatim>\<open>contains_point\<close> is only called on two integers. The attribute itself cannot be
  \<^verbatim>\<open>None\<close> here (line 45 and line 65); Python would raise a \<^verbatim>\<open>TypeError\<close> on it.
\<close>

definition check_public_pair :: "caps \<Rightarrow> key \<Rightarrow> error + key" where
  "check_public_pair c k =
     (case f_public_pair k of
        None \<Rightarrow> Inl TypeError
      | Some (Some x, Some y) \<Rightarrow>
          if g_contains_point (c_generator c) x y then Inr k else Inl InvalidPublicPairError
      | Some _ \<Rightarrow> Inl InvalidPublicPairError)"

definition Key_init :: "caps \<Rightarrow> int option \<Rightarrow> public_pair_t option \<Rightarrow> bool \<Rightarrow> error + key" where
  "Key_init c secret_exponent public_pair is_compressed =
     (if count_list [secret_exponent = None, public_pair = None] True \<noteq> 1 then Inl ValueError
      else
        let k = \<lparr> f_secret_exponent = secret_exponent,
                  f_public_pair = public_pair,
                  f_is_compressed = is_compressed,
                  f_hash160_uncompressed = None,
                  f_hash160_compressed = None \<rparr>
        in case f_secret_exponent k of
             Some s \<Rightarrow>
               if s < 1 \<or> s \<ge> g_order (c_generator c) then Inl InvalidSecretExponentError
               else check_public_pair c (k\<lparr> f_public_pair := Some (g_multiply (c_generator c) s) \<rparr>)
           | None \<Rightarrow> check_public_pair c k)"

subsection \<open>Fixed-width integers and the SEC form (imported helpers)\<close>

text \<open>
  The modules \<^verbatim>\<open>pycoin.encoding.bytes32\<close> and \<^verbatim>\<open>pycoin.encoding.sec\<close> (lines 1, 4-6) are
  not among the sources at hand. Their functions are defined here from the
  specification's byte formats.
\<close>

text \<open>The \<open>n\<close> low bytes of an integer, most significant byte first.\<close>

fun to_bytes :: "nat \<Rightarrow> int \<Rightarrow> bytes" where
  "to_bytes 0 v = []"
| "to_bytes (Suc n) v = to_bytes n (v div 256) @ [word_of_int (v mod 256)]"

text \<open>
  Modelled from the spec: \<^verbatim>\<open>to_bytes_32\<close> of \<^verbatim>\<open>pycoin.encoding.bytes32\<close> is missing. The
  spec has it give the fixed-width (32-byte) big-endian byte string of the scalar; an
  integer with no such encoding (negative, or \<open>2 ^ 256\<close> and above) is an error here.
\<close>

definition to_bytes_32 :: "int \<Rightarrow> error + bytes" where
  "to_bytes_32 v = (if 0 \<le> v \<and> v < 2 ^ 256 then Inr (to_bytes 32 v) else Inl OverflowError)"

text \<open>
  Modelled from the spec: \<^verbatim>\<open>from_bytes_32\<close> of \<^verbatim>\<open>pycoin.encoding.bytes32\<close> is missing. The
  spec has it interpret the bytes as a big-endian integer.
\<close>

definition from_bytes_32 :: "bytes \<Rightarrow> int" where
  "from_bytes_32 bs = foldl (\<lambda>acc b. acc * 256 + uint b) 0 bs"

text \<open>
  Modelled from the spec: \<^verbatim>\<open>public_pair_to_sec\<close> of \<^verbatim>\<open>pycoin.encoding.sec\<close> is missing.
  Compressed: one tag byte (\<open>0x02\<close> if y is even, \<open>0x03\<close> if odd) and the 32-byte
  big-endian x. Uncompressed: the tag byte \<open>0x04\<close>, the 32-byte big-endian x and the
  32-byte big-endian y.
\<close>

definition public_pair_to_sec :: "int \<times> int \<Rightarrow> bool \<Rightarrow> error + bytes" where
  "public_pair_to_sec pp compressed =
     (case to_bytes_32 (fst pp) of
        Inl e \<Rightarrow> Inl e
      | Inr x_str \<Rightarrow>
          if compressed then Inr ((if even (snd pp) then 2 else 3) # x_str)
          else (case to_bytes_32 (snd pp) of
                  Inl e \<Rightarrow> Inl e
                | Inr y_str \<Rightarrow> Inr (4 # x_str @ y_str)))"



subsection \<open>Accessors and encodings (lines 71-124)\<close>


definition secret_exponent :: "key \<Rightarrow> int option" where
  "secret_exponent k = f_secret_exponent k"

definition is_private :: "key \<Rightarrow> bool" where
  "is_private k = (secret_exponent k \<noteq> None)"

definition public_pair :: "key \<Rightarrow> public_pair_t option" where
  "public_pair k = f_public_pair k"

definition is_compressed :: "key \<Rightarrow> bool" where
  "is_compressed k = f_is_compressed k"

text \<open>
  Lines 95-96, 112-113 and 130-131: an override of \<^verbatim>\<open>None\<close> stands for the flag stored
  at construction.
\<close>

definition effective :: "key \<Rightarrow> bool option \<Rightarrow> bool" where
  "effective k ic = (case ic of None \<Rightarrow> is_compressed k | Some b \<Rightarrow> b)"

text \<open>
  Lines 88-100. The result is \<^verbatim>\<open>None\<close> for a key with no secret exponent; otherwise
  the blob handed to \<^verbatim>\<open>wif_for_blob\<close> is built first. \<open>wif_blob\<close> is that blob.
\<close>

definition wif_blob :: "key \<Rightarrow> bool option \<Rightarrow> error + bytes option" where
  "wif_blob k ic =
     (case secret_exponent k of
        None \<Rightarrow> Inr None
      | Some se \<Rightarrow>
          (case to_bytes_32 se of
             Inl e \<Rightarrow> Inl e
           | Inr blob \<Rightarrow> Inr (Some (if effective k ic then blob @ [1] else blob))))"

definition wif :: "caps \<Rightarrow> key \<Rightarrow> bool option \<Rightarrow> error + string option" where
  "wif c k ic =
     (case wif_blob k ic of
        Inl e \<Rightarrow> Inl e
      | Inr None \<Rightarrow> Inr None
      | Inr (Some blob) \<Rightarrow> Inr (Some (n_wif_for_blob (c_network c) blob)))"

text \<open>
  Lines 108-117. A pair with a \<^verbatim>\<open>None\<close> coordinate cannot be stored by \<^verbatim>\<open>__init__\<close>;
  \<^verbatim>\<open>public_pair_to_sec\<close> would raise a \<^verbatim>\<open>TypeError\<close> on it.
\<close>

definition sec :: "key \<Rightarrow> bool option \<Rightarrow> error + bytes option" where
  "sec k ic =
     (let is_compressed = effective k ic in
      case public_pair k of
        None \<Rightarrow> Inr None
      | Some (Some x, Some y) \<Rightarrow>
          (case public_pair_to_sec (x, y) is_compressed of
             Inl e \<Rightarrow> Inl e
           | Inr b \<Rightarrow> Inr (Some b))
      | Some _ \<Rightarrow> Inl TypeError)"

definition sec_as_hex :: "caps \<Rightarrow> key \<Rightarrow> bool option \<Rightarrow> error + string" where
  "sec_as_hex c k ic =
     (case sec k ic of
        Inl e \<Rightarrow> Inl e
      | Inr s \<Rightarrow> Inr (n_sec_text_for_blob (c_network c) s))"

subsection \<open>The cached digest (lines 126-148)\<close>

text \<open>
  The argument of the imported \<^verbatim>\<open>hash160\<close> at lines 134 and 138. \<^verbatim>\<open>sec\<close> may raise, and
  hashing \<^verbatim>\<open>None\<close> (a key with no public pair, which \<^verbatim>\<open>__init__\<close> never builds) is a
  \<^verbatim>\<open>TypeError\<close>.
\<close>

definition hash160_of_sec :: "caps \<Rightarrow> key \<Rightarrow> bool \<Rightarrow> error + bytes" where
  "hash160_of_sec c k compressed =
     (case sec k (Some compressed) of
        Inl e \<Rightarrow> Inl e
      | Inr None \<Rightarrow> Inl TypeError
      | Inr (Some b) \<Rightarrow> Inr (c_hash160 c b))"

text \<open>
  \<^verbatim>\<open>hash160\<close> is the one method that assigns to attributes of \<^verbatim>\<open>self\<close>: it returns its
  result together with the key after the call. An exception leaves the key as it was.
\<close>

definition hash160 :: "caps \<Rightarrow> key \<Rightarrow> bool option \<Rightarrow> (error + bytes) \<times> key" where
  "hash160 c k ic =
     (let is_compressed = effective k ic in
      if is_compressed then
        (case f_hash160_compressed k of
           None \<Rightarrow>
             (case hash160_of_sec c k is_compressed of
                Inl e \<Rightarrow> (Inl e, k)
              | Inr h \<Rightarrow> (Inr h, k\<lparr> f_hash160_compressed := Some h \<rparr>))
         | Some h \<Rightarrow> (Inr h, k))
      else
        (case f_hash160_uncompressed k of
           None \<Rightarrow>
             (case hash160_of_sec c k is_compressed of
                Inl e \<Rightarrow> (Inl e, k)
              | Inr h \<Rightarrow> (Inr h, k\<lparr> f_hash160_uncompressed := Some h \<rparr>))
         | Some h \<Rightarrow> (Inr h, k)))"

definition fingerprint :: "caps \<Rightarrow> key \<Rightarrow> bool option \<Rightarrow> (error + bytes) \<times> key" where
  "fingerprint c k ic =
     (case hash160 c k ic of
        (Inl e, k') \<Rightarrow> (Inl e, k')
      | (Inr h, k') \<Rightarrow> (Inr (take 4 h), k'))"

definition address :: "caps \<Rightarrow> key \<Rightarrow> bool option \<Rightarrow> (error + string) \<times> key" where
  "address c k ic =
     (case hash160 c k ic of
        (Inl e, k') \<Rightarrow> (Inl e, k')
      | (Inr h, k') \<Rightarrow> (Inr (n_address_for_p2pkh (c_network c) h), k'))"

subsection \<open>Text, copies and subkeys (lines 150-180)\<close>

text \<open>
  Lines 150-159. Python's truth value of the secret exponent is "not \<^verbatim>\<open>None\<close> and not
  zero", that of the hex text is "not empty". The result of \<^verbatim>\<open>wif()\<close> is returned as it
  is, so the result may be \<^verbatim>\<open>None\<close>.
\<close>

definition as_text :: "caps \<Rightarrow> key \<Rightarrow> (error + string option) \<times> key" where
  "as_text c k =
     (if secret_exponent k \<noteq> None \<and> secret_exponent k \<noteq> Some 0 then (wif c k None, k)
      else
        (case sec_as_hex c k None of
           Inl e \<Rightarrow> (Inl e, k)
         | Inr sec_hex \<Rightarrow>
             if sec_hex \<noteq> [] then (Inr (Some sec_hex), k)
             else (case address c k None of
                     (Inl e, k') \<Rightarrow> (Inl e, k')
                   | (Inr a, k') \<Rightarrow> (Inr (Some a), k'))))"

text \<open>Lines 161-164: the key itself when it is public, a new public key otherwise.\<close>

definition public_copy :: "caps \<Rightarrow> key \<Rightarrow> error + key" where
  "public_copy c k =
     (if secret_exponent k = None then Inr k
      else Key_init c None (public_pair k) (is_compressed k))"

definition subkey_for_path :: "key \<Rightarrow> 'p \<Rightarrow> key" where
  "subkey_for_path k path = k"

definition subkey :: "key \<Rightarrow> 'p \<Rightarrow> key" where
  "subkey k path_to_subkey = k"

text \<open>Lines 175-180: a Python generator; the list is what it yields, in order.\<close>

definition subkeys :: "key \<Rightarrow> 'p \<Rightarrow> key list" where
  "subkeys k path_to_subkeys = [k]"

subsection \<open>Signing and verifying (lines 182-199)\<close>

definition sign :: "caps \<Rightarrow> key \<Rightarrow> bytes \<Rightarrow> error + bytes" where
  "sign c k h =
     (if \<not> is_private k then Inl RuntimeError
      else
        (case secret_exponent k of
           None \<Rightarrow> Inl TypeError
         | Some se \<Rightarrow>
             let val = from_bytes_32 h;
                 (r, s) = g_sign (c_generator c) se val
             in Inr (c_sigencode_der c r s)))"

text \<open>
  Lines 193-199 hold no \<^verbatim>\<open>try\<close>: the arguments of the generator's \<^verbatim>\<open>verify\<close> are
  evaluated first, and an exception of \<^verbatim>\<open>sigdecode_der\<close> leaves the method.
\<close>

definition verify :: "caps \<Rightarrow> key \<Rightarrow> bytes \<Rightarrow> bytes \<Rightarrow> error + bool" where
  "verify c k h sig =
     (let val = from_bytes_32 h;
          pubkey = public_pair k
      in case c_sigdecode_der c sig of
           Inl e \<Rightarrow> Inl e
         | Inr rs \<Rightarrow> Inr (g_verify (c_generator c) pubkey val rs))"

subsection \<open>Representation (lines 207-217)\<close>

text \<open>\<^verbatim>\<open>"%s" % s\<close>: \<^verbatim>\<open>None\<close> prints as the text None.\<close>

definition percent_s :: "string option \<Rightarrow> string" where
  "percent_s s = (case s of None \<Rightarrow> ''None'' | Some t \<Rightarrow> t)"

text \<open>
  The text \<^verbatim>\<open>s\<close> of lines 209-214, computed on the copy \<^verbatim>\<open>r\<close>, with \<^verbatim>\<open>r\<close> after the
  calls.
\<close>

definition repr_text :: "caps \<Rightarrow> key \<Rightarrow> (error + string option) \<times> key" where
  "repr_text c r =
     (if n_bool (c_network c) then as_text c r
      else
        (case sec r None of
           Inl e \<Rightarrow> (Inl e, r)
         | Inr (Some (b # bs)) \<Rightarrow> (Inr (Some (c_b2h c (b # bs))), r)
         | Inr _ \<Rightarrow>
             (case hash160 c r None of
                (Inl e, r') \<Rightarrow> (Inl e, r')
              | (Inr h, r') \<Rightarrow> (Inr (Some (c_b2h c h)), r'))))"

text \<open>
  \<^verbatim>\<open>__repr__\<close>. When the key is public, \<^verbatim>\<open>r\<close> is the key itself (line 163), so what the
  calls on \<^verbatim>\<open>r\<close> store is stored in the key; when it is private, \<^verbatim>\<open>r\<close> is another
  object and the key is untouched.
\<close>

definition repr :: "caps \<Rightarrow> key \<Rightarrow> (error + string) \<times> key" where
  "repr c k =
     (case public_copy c k of
        Inl e \<Rightarrow> (Inl e, k)
      | Inr r \<Rightarrow>
          (case repr_text c r of
             (res, r') \<Rightarrow>
               let k' = (if secret_exponent k = None then r' else k) in
               (case res of
                  Inl e \<Rightarrow> (Inl e, k')
                | Inr s \<Rightarrow>
                    if is_private k then (Inr (''private_for <'' @ percent_s s @ ''>''), k')
                    else (Inr (''<'' @ percent_s s @ ''>''), k'))))"

subsection \<open>Sequences of method calls\<close>

text \<open>One constructor for each method of the class that is called on an instance.\<close>

datatype 'p call =
    Call_is_private
  | Call_secret_exponent
  | Call_wif "bool option"
  | Call_public_pair
  | Call_sec "bool option"
  | Call_sec_as_hex "bool option"
  | Call_hash160 "bool option"
  | Call_fingerprint "bool option"
  | Call_address "bool option"
  | Call_as_text
  | Call_public_copy
  | Call_subkey_for_path 'p
  | Call_subkey 'p
  | Call_subkeys 'p
  | Call_sign bytes
  | Call_verify bytes bytes
  | Call_is_compressed
  | Call_repr

text \<open>
  The key after one call. Only \<^verbatim>\<open>hash160\<close> assigns to an attribute, so only the methods
  that reach it (\<^verbatim>\<open>fingerprint\<close>, \<^verbatim>\<open>address\<close>, \<^verbatim>\<open>as_text\<close>, \<^verbatim>\<open>__repr__\<close>) can change
  the key; the bodies of the others hold no assignment to \<^verbatim>\<open>self\<close>.
\<close>

fun after_call :: "caps \<Rightarrow> key \<Rightarrow> 'p call \<Rightarrow> key" where
  "after_call c k (Call_hash160 ic) = snd (hash160 c k ic)"
| "after_call c k (Call_fingerprint ic) = snd (fingerprint c k ic)"
| "after_call c k (Call_address ic) = snd (address c k ic)"
| "after_call c k Call_as_text = snd (as_text c k)"
| "after_call c k Call_repr = snd (repr c k)"
| "after_call c k _ = k"

fun after_calls :: "caps \<Rightarrow> key \<Rightarrow> 'p call list \<Rightarrow> key" where
  "after_calls c k [] = k"
| "after_calls c k (m # ms) = after_calls c (after_call c k m) ms"

subsection \<open>Predicates used in the statements\<close>

text \<open>The condition of lines 67-68 under which \<^verbatim>\<open>InvalidPublicPairError\<close> is raised.\<close>

definition invalid_public_pair :: "caps \<Rightarrow> public_pair_t \<Rightarrow> bool" where
  "invalid_public_pair c pp =
     (case pp of
        (Some x, Some y) \<Rightarrow> \<not> g_contains_point (c_generator c) x y
      | _ \<Rightarrow> True)"

text \<open>
  A filled cache slot holds what lines 134 and 138 would compute for it now. Both
  slots are empty after \<^verbatim>\<open>__init__\<close>, and \<^verbatim>\<open>hash160\<close> is the only writer.
\<close>

definition cache_coherent :: "caps \<Rightarrow> key \<Rightarrow> bool" where
  "cache_coherent c k =
     ((case f_hash160_compressed k of
         None \<Rightarrow> True
       | Some h \<Rightarrow> hash160_of_sec c k True = Inr h)
      \<and> (case f_hash160_uncompressed k of
            None \<Rightarrow> True
          | Some h \<Rightarrow> hash160_of_sec c k False = Inr h))"

subsection \<open>An example binding\<close>

text \<open>
  A small concrete generator, network and codec, on which the statements below are
  evaluated: the subgroup of order 3 generated by \<open>(5, 8)\<close> on the curve
  \<open>y\<^sup>2 = x\<^sup>3 + 7\<close> over the integers modulo 17, whose multiples are \<open>(5, 8)\<close>, \<open>(5, 9)\<close> and
  the point at infinity.
\<close>

definition example_multiply :: "int \<Rightarrow> public_pair_t" where
  "example_multiply s =
     (if s mod 3 = 1 then (Some 5, Some 8)
      else if s mod 3 = 2 then (Some 5, Some 9)
      else (None, None))"

definition example_contains_point :: "int \<Rightarrow> int \<Rightarrow> bool" where
  "example_contains_point x y =
     (0 \<le> x \<and> x < 17 \<and> 0 \<le> y \<and> y < 17 \<and> (y * y) mod 17 = (x * x * x + 7) mod 17)"

definition example_generator :: generator where
  "example_generator =
     \<lparr> g_order = 3,
       g_multiply = example_multiply,
       g_contains_point = example_contains_point,
       g_sign = (\<lambda>se val. (se mod 17, (se + val) mod 17)),
       g_verify = (\<lambda>pubkey val rs.
          pubkey = Some (example_multiply (fst rs)) \<and> snd rs = (fst rs + val) mod 17),
       g_y_for_x = (\<lambda>x odd_y.
          find (\<lambda>y. example_contains_point x y \<and> odd y = odd_y)
            [0, 1, 2, 3, 4, 5, 6, 7, 8, 9, 10, 11, 12, 13, 14, 15, 16]) \<rparr>"

definition example_hex :: "bytes \<Rightarrow> string" where
  "example_hex bs =
     concat (map (\<lambda>w. [''0123456789abcdef'' ! (unat w div 16),
                        ''0123456789abcdef'' ! (unat w mod 16)]) bs)"

definition example_network :: network where
  "example_network =
     \<lparr> n_bool = True,
       n_wif_for_blob = (\<lambda>blob. ''wif:'' @ example_hex blob),
       n_sec_text_for_blob = (\<lambda>s. case s of None \<Rightarrow> [] | Some b \<Rightarrow> example_hex b),
       n_address_for_p2pkh = (\<lambda>h. ''addr:'' @ example_hex h) \<rparr>"

definition example_sigdecode_der :: "bytes \<Rightarrow> error + int \<times> int" where
  "example_sigdecode_der sig =
     (case sig of
        [r, s] \<Rightarrow> Inr (uint r, uint s)
      | _ \<Rightarrow> Inl DecodeError)"

definition example_caps :: caps where
  "example_caps =
     \<lparr> c_class_generator = Some example_generator,
       c_default_generator = example_generator,
       c_network = example_network,
       c_hash160 = (\<lambda>b. take 20 (rev b)),
       c_b2h = example_hex,
       c_sigencode_der = (\<lambda>r s. [word_of_int r, word_of_int s]),
       c_sigdecode_der = example_sigdecode_der \<rparr>"




text \<open>The public key \<open>(5, 8)\<close> and the private key with secret exponent 1.\<close>

definition example_public_key :: key where
  "example_public_key =
     \<lparr> f_secret_exponent = None,
       f_public_pair = Some (Some 5, Some 8),
       f_is_compressed = True,
       f_hash160_uncompressed = None,
       f_hash160_compressed = None \<rparr>"

definition example_private_key :: key where
  "example_private_key =
     \<lparr> f_secret_exponent = Some 1,
       f_public_pair = Some (Some 5, Some 8),
       f_is_compressed = True,
       f_hash160_uncompressed = None,
       f_hash160_compressed = None \<rparr>"

section \<open>Properties\<close>

subsection \<open>Construction arguments\<close>

text \<open>
  C3. Constructing a Key with both \<^verbatim>\<open>secret_exponent\<close> and \<^verbatim>\<open>public_pair\<close> supplied, or
  with neither, raises the \<^verbatim>\<open>ValueError\<close> of line 46 (an object of that class itself, not of one
  of the two validation error classes), whatever the other arguments are, and no Key is
  produced.
\<close>

theorem Key_init_argument_count:
  "Key_init c (Some s) (Some pp) ic = Inl ValueError
   \<and> Key_init c None None ic = Inl ValueError
   \<and> ValueError \<noteq> InvalidSecretExponentError
   \<and> ValueError \<noteq> InvalidPublicPairError"
  by (simp add: Key_init_def)

subsection \<open>Validation of the secret exponent and the public pair\<close>

lemma check_public_pair_Inr:
  "check_public_pair c k = Inr k' \<Longrightarrow>
     k' = k \<and> (\<exists>pp. f_public_pair k = Some pp \<and> \<not> invalid_public_pair c pp)"
  by (auto simp: check_public_pair_def invalid_public_pair_def
      split: option.splits prod.splits if_splits)

lemma check_public_pair_eq:
  "f_public_pair k = Some pp \<Longrightarrow>
     check_public_pair c k = (if invalid_public_pair c pp then Inl InvalidPublicPairError else Inr k)"
  by (auto simp: check_public_pair_def invalid_public_pair_def split: option.splits prod.splits)

lemmas example_defs =
  c_generator_def example_caps_def example_generator_def example_multiply_def example_contains_point_def
  example_network_def example_sigdecode_der_def example_public_key_def example_private_key_def

lemma example_private_key_init:
  "Key_init example_caps (Some 1) None True = Inr example_private_key"
  by (simp add: Key_init_def check_public_pair_def example_defs)

lemma example_public_key_init:
  "Key_init example_caps None (Some (Some 5, Some 8)) True = Inr example_public_key"
  by (simp add: Key_init_def check_public_pair_def example_defs)

text \<open>
  C4. Constructing a Key from a secret exponent \<open>s\<close> alone: when \<open>s < 1\<close> or
  \<open>s \<ge> order()\<close>, \<^verbatim>\<open>InvalidSecretExponentError\<close> is raised (lines 61-63); when
  \<open>1 \<le> s < order()\<close> the range check passes, that error is not raised, and the outcome
  is decided by the check of the derived public pair alone.
\<close>

theorem Key_init_secret_exponent_range:
  "(s < 1 \<or> s \<ge> g_order (c_generator c) \<longrightarrow>
      Key_init c (Some s) None ic = Inl InvalidSecretExponentError)
   \<and> (1 \<le> s \<and> s < g_order (c_generator c) \<longrightarrow>
        Key_init c (Some s) None ic \<noteq> Inl InvalidSecretExponentError
        \<and> Key_init c (Some s) None ic =
            (if invalid_public_pair c (g_multiply (c_generator c) s)
             then Inl InvalidPublicPairError
             else Inr \<lparr> f_secret_exponent = Some s,
                        f_public_pair = Some (g_multiply (c_generator c) s),
                        f_is_compressed = ic,
                        f_hash160_uncompressed = None,
                        f_hash160_compressed = None \<rparr>))"
  by (simp add: Key_init_def check_public_pair_eq)

theorem Key_init_secret_exponent_range_witness:
  "Key_init example_caps (Some 0) None True = Inl InvalidSecretExponentError
   \<and> Key_init example_caps (Some 3) None True = Inl InvalidSecretExponentError
   \<and> Key_init example_caps (Some 2) None True \<noteq> Inl InvalidSecretExponentError
   \<and> Key_init example_caps (Some 2) None True =
       Inr \<lparr> f_secret_exponent = Some 2, f_public_pair = Some (Some 5, Some 9),
              f_is_compressed = True, f_hash160_uncompressed = None,
              f_hash160_compressed = None \<rparr>"
  using Key_init_secret_exponent_range [of 0 example_caps True]
    Key_init_secret_exponent_range [of 3 example_caps True]
    Key_init_secret_exponent_range [of 2 example_caps True]
  by (simp add: example_defs invalid_public_pair_def)

text \<open>
  C5. A public pair that has a \<^verbatim>\<open>None\<close> coordinate (the point at infinity) or fails
  \<^verbatim>\<open>contains_point\<close> makes construction raise \<^verbatim>\<open>InvalidPublicPairError\<close>, whether the pair
  was supplied or derived from an in-range secret exponent; any other supplied pair
  is accepted and stored; and the public pair of every constructed Key consists of
  two integers that satisfy \<^verbatim>\<open>contains_point\<close>.
\<close>

theorem Key_init_public_pair_checked:
  "(invalid_public_pair c pp \<longrightarrow> Key_init c None (Some pp) ic = Inl InvalidPublicPairError)
   \<and> (1 \<le> s \<and> s < g_order (c_generator c) \<and> invalid_public_pair c (g_multiply (c_generator c) s)
        \<longrightarrow> Key_init c (Some s) None ic = Inl InvalidPublicPairError)
   \<and> (\<not> invalid_public_pair c pp \<longrightarrow>
        (\<exists>k. Key_init c None (Some pp) ic = Inr k \<and> public_pair k = Some pp))
   \<and> (Key_init c se ppo ic = Inr k \<longrightarrow>
        (\<exists>x y. public_pair k = Some (Some x, Some y) \<and> g_contains_point (c_generator c) x y))"
proof -
  have a: "invalid_public_pair c pp \<longrightarrow> Key_init c None (Some pp) ic = Inl InvalidPublicPairError"
    by (simp add: Key_init_def check_public_pair_eq)
  have b: "1 \<le> s \<and> s < g_order (c_generator c) \<and> invalid_public_pair c (g_multiply (c_generator c) s)
        \<longrightarrow> Key_init c (Some s) None ic = Inl InvalidPublicPairError"
    by (simp add: Key_init_def check_public_pair_eq)
  have d: "\<not> invalid_public_pair c pp \<longrightarrow>
        (\<exists>k. Key_init c None (Some pp) ic = Inr k \<and> public_pair k = Some pp)"
    by (simp add: Key_init_def check_public_pair_eq public_pair_def)
  have e: "Key_init c se ppo ic = Inr k \<longrightarrow>
        (\<exists>x y. public_pair k = Some (Some x, Some y) \<and> g_contains_point (c_generator c) x y)"
  proof
    assume h: "Key_init c se ppo ic = Inr k"
    then obtain k0 where "check_public_pair c k0 = Inr k"
      by (auto simp: Key_init_def Let_def split: if_splits option.splits)
    then obtain pp' where "f_public_pair k = Some pp'" "\<not> invalid_public_pair c pp'"
      using check_public_pair_Inr by blast
    then show "\<exists>x y. public_pair k = Some (Some x, Some y) \<and> g_contains_point (c_generator c) x y"
      by (auto simp: invalid_public_pair_def public_pair_def split: prod.splits option.splits)
  qed
  from a b d e show ?thesis by blast
qed

theorem Key_init_public_pair_checked_witness:
  "Key_init example_caps None (Some (None, None)) True = Inl InvalidPublicPairError
   \<and> Key_init example_caps None (Some (Some 5, Some 7)) True = Inl InvalidPublicPairError
   \<and> (\<exists>k. Key_init example_caps None (Some (Some 5, Some 8)) True = Inr k
          \<and> public_pair k = Some (Some 5, Some 8))
   \<and> (\<exists>x y. public_pair example_private_key = Some (Some x, Some y)
          \<and> g_contains_point (c_generator example_caps) x y)"
proof -
  have i1: "invalid_public_pair example_caps (None, None)"
    by (simp add: invalid_public_pair_def)
  have i2: "invalid_public_pair example_caps (Some 5, Some 7)"
    by (simp add: invalid_public_pair_def example_defs)
  have i3: "\<not> invalid_public_pair example_caps (Some 5, Some 8)"
    by (simp add: invalid_public_pair_def example_defs)
  show ?thesis
    using Key_init_public_pair_checked [of example_caps "(None, None)" True 1 "Some 1" None example_private_key]
      Key_init_public_pair_checked [of example_caps "(Some 5, Some 7)" True 1 "Some 1" None example_private_key]
      Key_init_public_pair_checked [of example_caps "(Some 5, Some 8)" True 1 "Some 1" None example_private_key]
      example_private_key_init i1 i2 i3
    by blast
qed

subsection \<open>Fixed-width big-endian integers\<close>

lemma from_bytes_32_Nil: "from_bytes_32 [] = 0"
  by (simp add: from_bytes_32_def)

lemma from_bytes_32_snoc: "from_bytes_32 (bs @ [b]) = from_bytes_32 bs * 256 + uint b"
  by (simp add: from_bytes_32_def)

lemma length_to_bytes: "length (to_bytes n v) = n"
  by (induction n arbitrary: v) auto

lemma uint_byte: "uint (word_of_int (v mod 256) :: 8 word) = v mod 256"
  by (simp add: uint_word_of_int take_bit_eq_mod)

lemma from_bytes_to_bytes: "0 \<le> v \<Longrightarrow> v < 256 ^ n \<Longrightarrow> from_bytes_32 (to_bytes n v) = v"
proof (induction n arbitrary: v)
  case 0
  then show ?case by (simp add: from_bytes_32_def)
next
  case (Suc n)
  have "0 \<le> v div 256" using Suc.prems by simp
  moreover have "v div 256 < 256 ^ n"
    using Suc.prems by (simp add: div_less_iff_less_mult mult.commute)
  ultimately have "from_bytes_32 (to_bytes n (v div 256)) = v div 256" by (rule Suc.IH)
  then show ?case by (simp add: from_bytes_32_snoc uint_byte)
qed

lemma from_bytes_32_to_bytes_32:
  "0 \<le> v \<Longrightarrow> v < 2 ^ 256 \<Longrightarrow> from_bytes_32 (to_bytes 32 v) = v"
  using from_bytes_to_bytes [of v 32] by simp

subsection \<open>Signing and verifying\<close>

text \<open>
  C6. \<^verbatim>\<open>sign\<close> on a Key without a secret exponent raises the \<^verbatim>\<open>RuntimeError\<close> of line 188
  (it does not return). On a private Key it reads the digest as a big-endian integer
  (the empty string is 0 and each further byte multiplies by 256 and adds the byte),
  calls the generator's \<^verbatim>\<open>sign\<close> with the secret exponent and that integer, and returns
  \<^verbatim>\<open>sigencode_der\<close> of the resulting pair \<open>(r, s)\<close>.
\<close>

theorem sign_needs_secret_exponent:
  "(secret_exponent k = None \<longrightarrow> sign c k h = Inl RuntimeError)
   \<and> (secret_exponent k = Some se \<longrightarrow>
        sign c k h =
          Inr (c_sigencode_der c (fst (g_sign (c_generator c) se (from_bytes_32 h)))
                                 (snd (g_sign (c_generator c) se (from_bytes_32 h)))))
   \<and> from_bytes_32 [] = 0
   \<and> from_bytes_32 (bs @ [b]) = from_bytes_32 bs * 256 + uint b"
  by (simp add: sign_def is_private_def from_bytes_32_Nil from_bytes_32_snoc split: prod.splits)

theorem sign_needs_secret_exponent_witness:
  "sign example_caps example_public_key [1, 2] = Inl RuntimeError
   \<and> sign example_caps example_private_key [1, 2] = Inr [1, 4]"
  using sign_needs_secret_exponent [of example_public_key example_caps "[1, 2]" 1]
    sign_needs_secret_exponent [of example_private_key example_caps "[1, 2]" 1]
  by (simp add: example_defs secret_exponent_def from_bytes_32_def)

text \<open>
  C1, as the code has it. \<^verbatim>\<open>verify\<close> does not catch anything: when \<^verbatim>\<open>sigdecode_der\<close>
  raises on the signature bytes, that exception leaves \<^verbatim>\<open>verify\<close>; when it decodes them
  to a pair, \<^verbatim>\<open>verify\<close> returns what the generator's \<^verbatim>\<open>verify\<close> says for the Key's public
  pair, the digest read as a big-endian integer, and that pair.
\<close>

theorem verify_propagates_decode_error:
  "(c_sigdecode_der c sig = Inl e \<longrightarrow> verify c k h sig = Inl e)
   \<and> (c_sigdecode_der c sig = Inr rs \<longrightarrow>
        verify c k h sig = Inr (g_verify (c_generator c) (public_pair k) (from_bytes_32 h) rs))"
  by (simp add: verify_def)

theorem verify_propagates_decode_error_witness:
  "verify example_caps example_public_key [1, 2] [] = Inl DecodeError
   \<and> verify example_caps example_public_key [1, 2] [1, 4] = Inr True
   \<and> verify example_caps example_public_key [1, 2] [1, 5] = Inr False"
  using verify_propagates_decode_error [of example_caps "[]" DecodeError example_public_key "[1, 2]" "(0, 0)"]
    verify_propagates_decode_error [of example_caps "[1, 4]" DecodeError example_public_key "[1, 2]" "(1, 4)"]
    verify_propagates_decode_error [of example_caps "[1, 5]" DecodeError example_public_key "[1, 2]" "(1, 5)"]
  by (simp add: example_defs public_pair_def from_bytes_32_def)

text \<open>
  C1, as the specification states it, fails: with a codec that cannot decode the
  empty byte string, \<^verbatim>\<open>verify\<close> on that string does not return false, for a public and
  for a private Key.
\<close>

theorem verify_malformed_signature_raises:
  "c_sigdecode_der example_caps [] = Inl DecodeError
   \<and> verify example_caps example_public_key [1, 2] [] \<noteq> Inr False
   \<and> verify example_caps example_private_key [1, 2] [] \<noteq> Inr False"
  by (simp add: verify_def example_defs)

subsection \<open>The private export blob\<close>

text \<open>
  C7. \<^verbatim>\<open>wif\<close> on a Key without a secret exponent returns \<^verbatim>\<open>None\<close> and raises nothing. On
  a private Key whose secret exponent fits 32 bytes, the blob handed to the
  network's \<^verbatim>\<open>wif_for_blob\<close> is the 32-byte big-endian encoding of the secret exponent
  (32 bytes that read back as the exponent), followed by the single byte \<open>0x01\<close>
  exactly when the effective compression flag is true; the effective flag is the
  override when one is given and the flag stored at construction otherwise.
\<close>

theorem wif_blob_format:
  "(secret_exponent k = None \<longrightarrow> wif c k ic = Inr None)
   \<and> (secret_exponent k = Some se \<and> 0 \<le> se \<and> se < 2 ^ 256 \<longrightarrow>
        wif_blob k ic = Inr (Some (to_bytes 32 se @ (if effective k ic then [1] else [])))
        \<and> wif c k ic =
            Inr (Some (n_wif_for_blob (c_network c)
                         (to_bytes 32 se @ (if effective k ic then [1] else []))))
        \<and> length (to_bytes 32 se) = 32
        \<and> from_bytes_32 (to_bytes 32 se) = se)
   \<and> effective k None = is_compressed k
   \<and> effective k (Some b) = b"
  by (simp add: wif_def wif_blob_def to_bytes_32_def length_to_bytes
      from_bytes_32_to_bytes_32 effective_def)

theorem wif_blob_format_witness:
  "wif example_caps example_public_key None = Inr None
   \<and> wif_blob example_private_key None =
       Inr (Some [0, 0, 0, 0, 0, 0, 0, 0, 0, 0, 0, 0, 0, 0, 0, 0,
                  0, 0, 0, 0, 0, 0, 0, 0, 0, 0, 0, 0, 0, 0, 0, 1, 1])
   \<and> wif_blob example_private_key (Some False) =
       Inr (Some [0, 0, 0, 0, 0, 0, 0, 0, 0, 0, 0, 0, 0, 0, 0, 0,
                  0, 0, 0, 0, 0, 0, 0, 0, 0, 0, 0, 0, 0, 0, 0, 1])"
  using wif_blob_format [of example_public_key example_caps None 1 False]
    wif_blob_format [of example_private_key example_caps None 1 False]
    wif_blob_format [of example_private_key example_caps "Some False" 1 False]
  by (simp add: example_defs secret_exponent_def is_compressed_def eval_nat_numeral)

subsection \<open>Subkeys\<close>

text \<open>
  C10. For every Key and every path, \<^verbatim>\<open>subkey_for_path\<close> and \<^verbatim>\<open>subkey\<close> return the Key
  itself, and \<^verbatim>\<open>subkeys\<close> yields that Key exactly once.
\<close>

theorem subkeys_are_identity:
  "subkey_for_path k path = k \<and> subkey k path = k \<and> subkeys k path = [k]"
  by (simp add: subkey_for_path_def subkey_def subkeys_def)

subsection \<open>The digest cache\<close>

text \<open>The cache slots are read by \<^verbatim>\<open>hash160\<close> only.\<close>

lemma effective_cache [simp]:
  "effective (k\<lparr> f_hash160_compressed := v \<rparr>) ic = effective k ic"
  "effective (k\<lparr> f_hash160_uncompressed := v \<rparr>) ic = effective k ic"
  by (simp_all add: effective_def is_compressed_def split: option.splits)

lemma sec_cache [simp]:
  "sec (k\<lparr> f_hash160_compressed := v \<rparr>) ic = sec k ic"
  "sec (k\<lparr> f_hash160_uncompressed := v \<rparr>) ic = sec k ic"
  by (simp_all add: sec_def public_pair_def)

lemma hash160_of_sec_cache [simp]:
  "hash160_of_sec c (k\<lparr> f_hash160_compressed := v \<rparr>) b = hash160_of_sec c k b"
  "hash160_of_sec c (k\<lparr> f_hash160_uncompressed := v \<rparr>) b = hash160_of_sec c k b"
  by (simp_all add: hash160_of_sec_def)

lemma sec_effective: "sec k (Some (effective k ic)) = sec k ic"
  by (simp add: sec_def effective_def)

lemma hash160_of_sec_same_pair:
  "f_public_pair k' = f_public_pair k \<Longrightarrow> hash160_of_sec c k' b = hash160_of_sec c k b"
  by (simp add: hash160_of_sec_def sec_def public_pair_def effective_def)

text \<open>Every method leaves the key as it was or as \<^verbatim>\<open>hash160\<close> leaves it.\<close>

lemma hash160_frame:
  "f_secret_exponent (snd (hash160 c k ic)) = f_secret_exponent k
   \<and> f_public_pair (snd (hash160 c k ic)) = f_public_pair k
   \<and> f_is_compressed (snd (hash160 c k ic)) = f_is_compressed k"
  by (simp add: hash160_def Let_def split: option.splits sum.splits)

lemma snd_fingerprint: "snd (fingerprint c k ic) = snd (hash160 c k ic)"
  by (simp add: fingerprint_def split: prod.splits sum.splits)

lemma snd_address: "snd (address c k ic) = snd (hash160 c k ic)"
  by (simp add: address_def split: prod.splits sum.splits)

lemma snd_as_text: "snd (as_text c k) = k \<or> snd (as_text c k) = snd (hash160 c k None)"
  by (simp add: as_text_def snd_address [symmetric] split: prod.splits sum.splits)

lemma snd_repr_text: "snd (repr_text c r) = r \<or> snd (repr_text c r) = snd (hash160 c r None)"
  using snd_as_text [of c r]
  by (auto simp: repr_text_def split: prod.splits sum.splits option.splits list.splits)

lemma snd_repr: "snd (repr c k) = k \<or> snd (repr c k) = snd (hash160 c k None)"
proof (cases "secret_exponent k = None")
  case True
  then have "snd (repr c k) = snd (repr_text c k)"
    by (simp add: repr_def public_copy_def is_private_def split: prod.splits sum.splits)
  then show ?thesis using snd_repr_text [of c k] by simp
next
  case False
  then have "snd (repr c k) = k"
    by (auto simp: repr_def is_private_def split: prod.splits sum.splits)
  then show ?thesis by simp
qed

lemma after_call_cases:
  "after_call c k m = k \<or> (\<exists>ic. after_call c k m = snd (hash160 c k ic))"
proof (cases m)
  case Call_as_text
  then show ?thesis using snd_as_text [of c k] by auto
next
  case Call_repr
  then show ?thesis using snd_repr [of c k] by auto
qed (auto simp: snd_fingerprint snd_address)

lemma after_call_frame:
  "f_secret_exponent (after_call c k m) = f_secret_exponent k
   \<and> f_public_pair (after_call c k m) = f_public_pair k
   \<and> f_is_compressed (after_call c k m) = f_is_compressed k"
  using after_call_cases [of c k m] hash160_frame by auto

lemma after_calls_frame:
  "f_secret_exponent (after_calls c k ms) = f_secret_exponent k
   \<and> f_public_pair (after_calls c k ms) = f_public_pair k
   \<and> f_is_compressed (after_calls c k ms) = f_is_compressed k"
proof (induction ms arbitrary: k)
  case Nil
  then show ?case by simp
next
  case (Cons m ms)
  show ?case using Cons.IH [of "after_call c k m"] after_call_frame [of c k m] by simp
qed

lemma hash160_idempotent:
  "hash160 c (snd (hash160 c k ic)) ic = (fst (hash160 c k ic), snd (hash160 c k ic))"
  by (cases ic) (auto simp: hash160_def Let_def effective_def is_compressed_def split: option.splits sum.splits)

text \<open>
  C9. After any sequence of method calls on a Key (with or without compression
  overrides) the secret exponent, the public pair and the stored compression flag
  are what they were: the Key differs from the original in its two digest slots at
  most. Filling a slot is idempotent: a second \<^verbatim>\<open>hash160\<close> with the same argument
  returns the same bytes and leaves the Key as the first call left it.
\<close>

theorem methods_write_cache_only:
  "f_secret_exponent (after_calls c k ms) = f_secret_exponent k
   \<and> f_public_pair (after_calls c k ms) = f_public_pair k
   \<and> f_is_compressed (after_calls c k ms) = f_is_compressed k
   \<and> after_calls c k ms =
       k\<lparr> f_hash160_uncompressed := f_hash160_uncompressed (after_calls c k ms),
          f_hash160_compressed := f_hash160_compressed (after_calls c k ms) \<rparr>
   \<and> hash160 c (snd (hash160 c k ic)) ic = (fst (hash160 c k ic), snd (hash160 c k ic))"
  using after_calls_frame [of c k ms] hash160_idempotent [of c k ic] by simp

text \<open>Construction leaves both slots empty, and \<^verbatim>\<open>hash160\<close> keeps filled slots right.\<close>

lemma hash160_coherent: "cache_coherent c k \<Longrightarrow> cache_coherent c (snd (hash160 c k ic))"
  by (cases "effective k ic")
    (auto simp: cache_coherent_def hash160_def Let_def split: option.splits sum.splits)

lemma after_call_coherent: "cache_coherent c k \<Longrightarrow> cache_coherent c (after_call c k m)"
  using after_call_cases [of c k m] hash160_coherent by auto

lemma after_calls_coherent: "cache_coherent c k \<Longrightarrow> cache_coherent c (after_calls c k ms)"
  by (induction ms arbitrary: k) (auto simp: after_call_coherent)

lemma Key_init_coherent: "Key_init c se pp ic = Inr k \<Longrightarrow> cache_coherent c k"
  by (auto simp: Key_init_def Let_def cache_coherent_def dest!: check_public_pair_Inr
      split: if_splits option.splits)

lemma hash160_coherent_result:
  "cache_coherent c k \<Longrightarrow> fst (hash160 c k ic) = hash160_of_sec c k (effective k ic)"
  by (auto simp: cache_coherent_def hash160_def Let_def split: option.splits sum.splits)

lemma hash160_other_slot:
  "(if effective k ic
    then f_hash160_uncompressed (snd (hash160 c k ic)) = f_hash160_uncompressed k
    else f_hash160_compressed (snd (hash160 c k ic)) = f_hash160_compressed k)"
  by (auto simp: hash160_def Let_def split: option.splits sum.splits)

lemma hash160_of_sec_Some:
  "sec k ic = Inr (Some b) \<Longrightarrow> hash160_of_sec c k (effective k ic) = Inr (c_hash160 c b)"
  by (simp add: hash160_of_sec_def sec_effective)

text \<open>What a call of \<^verbatim>\<open>hash160\<close> does to the slot of the chosen style.\<close>

lemma hash160_stores:
  "fst (hash160 c k ic) = Inr h \<Longrightarrow>
     (if effective k ic
      then f_hash160_compressed (snd (hash160 c k ic)) = Some h
      else f_hash160_uncompressed (snd (hash160 c k ic)) = Some h)"
  by (auto simp: hash160_def Let_def split: option.splits sum.splits if_splits)

lemma hash160_reads:
  "(if effective k ic then f_hash160_compressed k else f_hash160_uncompressed k) = Some h \<Longrightarrow>
     hash160 c k ic = (Inr h, k)"
  by (auto simp: hash160_def Let_def split: option.splits sum.splits if_splits)

lemma hash160_fills:
  "(if effective k ic then f_hash160_compressed k else f_hash160_uncompressed k) = None \<Longrightarrow>
   hash160_of_sec c k (effective k ic) = Inr h \<Longrightarrow>
     hash160 c k ic =
       (Inr h, if effective k ic then k\<lparr> f_hash160_compressed := Some h \<rparr>
               else k\<lparr> f_hash160_uncompressed := Some h \<rparr>)"
  by (auto simp: hash160_def Let_def split: option.splits sum.splits if_splits)

lemma example_after_hash160:
  "after_calls example_caps example_public_key [Call_hash160 None, Call_wif (Some False)] =
     example_public_key\<lparr> f_hash160_compressed :=
       Some [5, 0, 0, 0, 0, 0, 0, 0, 0, 0, 0, 0, 0, 0, 0, 0, 0, 0, 0, 0] \<rparr>"
  by (simp add: hash160_def hash160_of_sec_def sec_def public_pair_def effective_def
      is_compressed_def public_pair_to_sec_def to_bytes_32_def example_defs eval_nat_numeral)

lemma example_sec_compressed:
  "sec (example_public_key\<lparr> f_hash160_compressed := v \<rparr>) None =
     Inr (Some [2, 0, 0, 0, 0, 0, 0, 0, 0, 0, 0, 0, 0, 0, 0, 0, 0,
                0, 0, 0, 0, 0, 0, 0, 0, 0, 0, 0, 0, 0, 0, 0, 5])"
  by (simp add: sec_def public_pair_def effective_def
      is_compressed_def public_pair_to_sec_def to_bytes_32_def example_defs eval_nat_numeral)

lemma example_sec_fresh:
  "sec example_public_key None =
     Inr (Some [2, 0, 0, 0, 0, 0, 0, 0, 0, 0, 0, 0, 0, 0, 0, 0, 0,
                0, 0, 0, 0, 0, 0, 0, 0, 0, 0, 0, 0, 0, 0, 0, 5])"
  by (simp add: sec_def public_pair_def effective_def
      is_compressed_def public_pair_to_sec_def to_bytes_32_def example_defs eval_nat_numeral)

lemma example_effective: "effective example_public_key None"
  by (simp add: effective_def is_compressed_def example_defs)

lemma example_slots_empty:
  "f_hash160_compressed example_public_key = None"
  "f_hash160_uncompressed example_public_key = None"
  by (simp_all add: example_defs)

text \<open>
  C8. For a Key built by the constructor and used through any sequence of method
  calls, \<^verbatim>\<open>hash160\<close> at a compression style returns the short hash of the Key's SEC
  encoding at that style (and raises what \<^verbatim>\<open>sec\<close> raises, if it does); a second call
  with the same style returns the same bytes; the result is the one the freshly
  constructed Key gives, so the cache cannot be observed through it; the call leaves
  the slot of the other style as it was. The result is cached: after a call that
  returns bytes, the slot of the chosen style holds those bytes; a call that finds
  the slot filled returns its content and leaves the Key as it is; and a call that
  finds it empty returns the short hash of the SEC encoding and stores it in that
  slot, changing nothing else.
\<close>

theorem hash160_cached:
  assumes "Key_init c se pp ic0 = Inr k0" and "k = after_calls c k0 ms"
  shows "fst (hash160 c k ic) = hash160_of_sec c k (effective k ic)
    \<and> (sec k ic = Inr (Some b) \<longrightarrow> fst (hash160 c k ic) = Inr (c_hash160 c b))
    \<and> fst (hash160 c (snd (hash160 c k ic)) ic) = fst (hash160 c k ic)
    \<and> fst (hash160 c k ic) = fst (hash160 c k0 ic)
    \<and> (if effective k ic
        then f_hash160_uncompressed (snd (hash160 c k ic)) = f_hash160_uncompressed k
        else f_hash160_compressed (snd (hash160 c k ic)) = f_hash160_compressed k)
    \<and> (fst (hash160 c k ic) = Inr h \<longrightarrow>
         (if effective k ic
          then f_hash160_compressed (snd (hash160 c k ic)) = Some h
          else f_hash160_uncompressed (snd (hash160 c k ic)) = Some h))
    \<and> ((if effective k ic then f_hash160_compressed k else f_hash160_uncompressed k) = Some h \<longrightarrow>
         hash160 c k ic = (Inr h, k))
    \<and> ((if effective k ic then f_hash160_compressed k else f_hash160_uncompressed k) = None
         \<and> sec k ic = Inr (Some b) \<longrightarrow>
         hash160 c k ic =
           (Inr (c_hash160 c b),
            if effective k ic then k\<lparr> f_hash160_compressed := Some (c_hash160 c b) \<rparr>
            else k\<lparr> f_hash160_uncompressed := Some (c_hash160 c b) \<rparr>))"
proof -
  have c0: "cache_coherent c k0" using assms(1) by (rule Key_init_coherent)
  then have ck: "cache_coherent c k" using assms(2) by (simp add: after_calls_coherent)
  have r: "fst (hash160 c k ic) = hash160_of_sec c k (effective k ic)"
    using ck by (rule hash160_coherent_result)
  have r0: "fst (hash160 c k0 ic) = hash160_of_sec c k0 (effective k0 ic)"
    using c0 by (rule hash160_coherent_result)
  have fr: "f_public_pair k = f_public_pair k0" "f_is_compressed k = f_is_compressed k0"
    using after_calls_frame [of c k0 ms] assms(2) by simp_all
  have e: "effective k ic = effective k0 ic"
    using fr by (simp add: effective_def is_compressed_def split: option.splits)
  have same: "fst (hash160 c k ic) = fst (hash160 c k0 ic)"
    using r r0 e hash160_of_sec_same_pair [OF fr(1)] by simp
  have twice: "fst (hash160 c (snd (hash160 c k ic)) ic) = fst (hash160 c k ic)"
    by (simp add: hash160_idempotent)
  have some: "sec k ic = Inr (Some b) \<longrightarrow> fst (hash160 c k ic) = Inr (c_hash160 c b)"
    using r hash160_of_sec_Some by simp
  have stores: "fst (hash160 c k ic) = Inr h \<longrightarrow>
         (if effective k ic
          then f_hash160_compressed (snd (hash160 c k ic)) = Some h
          else f_hash160_uncompressed (snd (hash160 c k ic)) = Some h)"
    using hash160_stores [of c k ic h] by blast
  have reads: "(if effective k ic then f_hash160_compressed k else f_hash160_uncompressed k) = Some h \<longrightarrow>
         hash160 c k ic = (Inr h, k)"
    using hash160_reads [of k ic h c] by blast
  have fills: "(if effective k ic then f_hash160_compressed k else f_hash160_uncompressed k) = None
         \<and> sec k ic = Inr (Some b) \<longrightarrow>
         hash160 c k ic =
           (Inr (c_hash160 c b),
            if effective k ic then k\<lparr> f_hash160_compressed := Some (c_hash160 c b) \<rparr>
            else k\<lparr> f_hash160_uncompressed := Some (c_hash160 c b) \<rparr>)"
    using hash160_fills [of k ic c "c_hash160 c b"] hash160_of_sec_Some [of k ic b c] by blast
  from r some twice same hash160_other_slot [of k ic c] stores reads fills
  show ?thesis by blast
qed

theorem hash160_cached_witness:
  "hash160 example_caps example_public_key None =
     (Inr [5, 0, 0, 0, 0, 0, 0, 0, 0, 0, 0, 0, 0, 0, 0, 0, 0, 0, 0, 0],
      example_public_key\<lparr> f_hash160_compressed :=
        Some [5, 0, 0, 0, 0, 0, 0, 0, 0, 0, 0, 0, 0, 0, 0, 0, 0, 0, 0, 0] \<rparr>)
   \<and> f_hash160_compressed (snd (hash160 example_caps example_public_key None)) =
       Some [5, 0, 0, 0, 0, 0, 0, 0, 0, 0, 0, 0, 0, 0, 0, 0, 0, 0, 0, 0]
   \<and> f_hash160_uncompressed (snd (hash160 example_caps example_public_key None)) = None
   \<and> hash160 example_caps
       (example_public_key\<lparr> f_hash160_compressed :=
          Some [5, 0, 0, 0, 0, 0, 0, 0, 0, 0, 0, 0, 0, 0, 0, 0, 0, 0, 0, 0] \<rparr>) None =
     (Inr [5, 0, 0, 0, 0, 0, 0, 0, 0, 0, 0, 0, 0, 0, 0, 0, 0, 0, 0, 0],
      example_public_key\<lparr> f_hash160_compressed :=
        Some [5, 0, 0, 0, 0, 0, 0, 0, 0, 0, 0, 0, 0, 0, 0, 0, 0, 0, 0, 0] \<rparr>)
   \<and> fst (hash160 example_caps
          (example_public_key\<lparr> f_hash160_compressed :=
             Some [5, 0, 0, 0, 0, 0, 0, 0, 0, 0, 0, 0, 0, 0, 0, 0, 0, 0, 0, 0] \<rparr>) None)
     = fst (hash160 example_caps example_public_key None)"
proof -
  let ?h = "[5, 0, 0, 0, 0, 0, 0, 0, 0, 0, 0, 0, 0, 0, 0, 0, 0, 0, 0, 0] :: bytes"
  let ?k = "example_public_key\<lparr> f_hash160_compressed := Some ?h \<rparr>"
  let ?b = "[2, 0, 0, 0, 0, 0, 0, 0, 0, 0, 0, 0, 0, 0, 0, 0, 0,
             0, 0, 0, 0, 0, 0, 0, 0, 0, 0, 0, 0, 0, 0, 0, 5] :: bytes"
  have k0: "example_public_key = after_calls example_caps example_public_key ([] :: unit call list)"
    by simp
  note fresh = hash160_cached [OF example_public_key_init k0, of None ?b ?h]
  note used = hash160_cached [OF example_public_key_init example_after_hash160 [symmetric],
      of None ?b ?h]
  have h: "c_hash160 example_caps ?b = ?h"
    by (simp add: example_caps_def)
  have e: "effective ?k None"
    by (simp add: effective_def is_compressed_def example_defs)
  have slot: "f_hash160_compressed ?k = Some ?h"
    by simp
  have a: "hash160 example_caps example_public_key None = (Inr ?h, ?k)"
    using fresh example_sec_fresh example_effective example_slots_empty h by simp
  have b: "hash160 example_caps ?k None = (Inr ?h, ?k)"
    using used e slot by simp
  have c: "f_hash160_uncompressed (snd (hash160 example_caps example_public_key None)) = None"
    using fresh example_effective example_slots_empty by simp
  show ?thesis using a b c by simp
qed

subsection \<open>The SEC form\<close>












end
